theory Spec2Isabelle
  imports Complex_Main "HOL-Library.Multiset"
begin

section \<open>JavaScript values used by the plugin\<close>

text \<open>
  The plugin (src/index.ts and its two earlier variants) is TypeScript. Its values are
  modelled as follows.
  \<^item> A string is the sequence of its UTF-16 code units, each a natural number; \<open>asc\<close>
    turns an ASCII literal into such a sequence. Text outside ASCII is written by its
    code units.
  \<^item> A number that the plugin uses as a count, a page, an order or a pixel width is an
    \<open>int\<close>; the two quotients of the layout formula are rationals.
  \<^item> A value that may be \<open>undefined\<close> (an option that was not given, a missing
    argument, a missing session) is an \<open>option\<close>.
  \<^item> \<open>String.prototype.toLowerCase\<close> is the runtime's Unicode case mapping: the
    functions that call it take it as the parameter \<open>lc\<close>. \<open>Date.now()\<close> is the
    parameter \<open>now\<close>.
\<close>

type_synonym jsstring = "nat list"

definition asc :: "string \<Rightarrow> jsstring" where
  "asc s = map of_char s"

text \<open>Truthiness: \<open>undefined\<close>, the empty string and the number 0 are falsy.\<close>

definition truthy_string :: "jsstring option \<Rightarrow> bool" where
  "truthy_string v = (case v of None \<Rightarrow> False | Some s \<Rightarrow> s \<noteq> [])"

definition truthy_number :: "int option \<Rightarrow> bool" where
  "truthy_number v = (case v of None \<Rightarrow> False | Some n \<Rightarrow> n \<noteq> 0)"

text \<open>\<open>v || d\<close> on a string (a number): \<open>v\<close> when it is truthy, else \<open>d\<close>.\<close>

definition or_string :: "jsstring option \<Rightarrow> jsstring \<Rightarrow> jsstring" where
  "or_string v d = (case v of None \<Rightarrow> d | Some s \<Rightarrow> if s = [] then d else s)"

definition or_number :: "int option \<Rightarrow> int \<Rightarrow> int" where
  "or_number v d = (case v of None \<Rightarrow> d | Some n \<Rightarrow> if n = 0 then d else n)"

text \<open>
  \<open>Number.prototype.toString(radix)\<close> on an integer: the digits \<open>0-9a-z\<close>, most
  significant first, after a minus sign for a negative number.
\<close>

definition digit_unit :: "nat \<Rightarrow> nat" where
  "digit_unit d = (if d < 10 then 48 + d else 87 + d)"

fun radix_digits :: "nat \<Rightarrow> nat \<Rightarrow> jsstring" where
  "radix_digits r n =
     (if r < 2 \<or> n < r then [digit_unit n]
      else radix_digits r (n div r) @ [digit_unit (n mod r)])"

definition toString_radix :: "nat \<Rightarrow> int \<Rightarrow> jsstring" where
  "toString_radix r n =
     (if n < 0 then 45 # radix_digits r (nat (- n)) else radix_digits r (nat n))"

definition toString :: "int \<Rightarrow> jsstring" where
  "toString n = toString_radix 10 n"

text \<open>
  \<open>toLowerCase\<close> restricted to Basic Latin, where it adds 32 to \<open>A-Z\<close>; it stands for
  the parameter \<open>lc\<close> when a function is evaluated on ASCII text.
\<close>

definition lc_ascii :: "jsstring \<Rightarrow> jsstring" where
  "lc_ascii s = map (\<lambda>c. if 65 \<le> c \<and> c \<le> 90 then c + 32 else c) s"

text \<open>\<open>s.includes(t)\<close>: \<open>t\<close> occurs in \<open>s\<close> as a contiguous run of code units.\<close>

fun includes_string :: "jsstring \<Rightarrow> jsstring \<Rightarrow> bool" where
  "includes_string [] t = (t = [])"
| "includes_string (c # s) t = (take (length t) (c # s) = t \<or> includes_string s t)"

text \<open>
  \<open>Array.prototype.slice(start, end)\<close> on integers: a negative index counts from the
  end, both indices are clamped to \<open>0..length\<close>, and the result is empty when the
  final index does not exceed the first.
\<close>

definition slice :: "'a list \<Rightarrow> int \<Rightarrow> int \<Rightarrow> 'a list" where
  "slice xs start end =
     (let len = int (length xs);
          k = (if start < 0 then max (len + start) 0 else min start len);
          final = (if end < 0 then max (len + end) 0 else min end len)
      in take (nat (final - k)) (drop (nat k) xs))"

text \<open>
  \<open>[...new Set(xs)]\<close>: the distinct elements of \<open>xs\<close> in the order in which each is
  first seen.
\<close>

definition set_values :: "'a list \<Rightarrow> 'a list" where
  "set_values xs = fold (\<lambda>x seen. if x \<in> set seen then seen else seen @ [x]) xs []"

text \<open>
  \<open>Array.prototype.sort(cmp)\<close> is stable (ECMAScript 2019): with a comparator that is
  a total preorder the result is the one ordered arrangement in which elements that
  compare equal keep their input order. Insertion sort from the left computes it: each
  element goes in front of the first element already placed that it is smaller than.
\<close>

fun sort_insert :: "('a \<Rightarrow> 'a \<Rightarrow> int) \<Rightarrow> 'a \<Rightarrow> 'a list \<Rightarrow> 'a list" where
  "sort_insert cmp x [] = [x]"
| "sort_insert cmp x (y # ys) =
     (if cmp x y < 0 then x # y # ys else y # sort_insert cmp x ys)"

definition array_sort :: "('a \<Rightarrow> 'a \<Rightarrow> int) \<Rightarrow> 'a list \<Rightarrow> 'a list" where
  "array_sort cmp xs = foldl (\<lambda>placed x. sort_insert cmp x placed) [] xs"

text \<open>
  An \<open>async\<close> function returns a promise. \<open>await\<close> reads the value it is fulfilled
  with; used as a condition without \<open>await\<close>, the promise is an object, and every
  object is truthy.
\<close>

datatype 'a promise = Fulfilled 'a

definition await :: "'a promise \<Rightarrow> 'a" where
  "await p = (case p of Fulfilled v \<Rightarrow> v)"

definition truthy_object :: "'a promise \<Rightarrow> bool" where
  "truthy_object p = True"

section \<open>Data model\<close>

record menu_item =
  id' :: jsstring
  name :: jsstring
  description :: jsstring
  command :: jsstring
  category :: jsstring
  enabled :: bool
  order :: int
  permissions :: "jsstring list option"

text \<open>
  The configuration, with the bounds its schema puts on the numbers
  (\<open>Schema.number().min(..).max(..)\<close>).
\<close>

record config =
  defaultCategory :: jsstring
  enableCategories :: bool
  itemsPerPage :: int
  allowUserSuggestions :: bool
  adminPermission :: jsstring
  enableImageMenu :: bool
  imageFooterText :: jsstring
  imageWidth :: int
  imageColumnWidth :: int
  defaultItems :: "menu_item list"

definition config_ok :: "config \<Rightarrow> bool" where
  "config_ok cfg =
     (5 \<le> itemsPerPage cfg \<and> itemsPerPage cfg \<le> 50 \<and>
      800 \<le> imageWidth cfg \<and> imageWidth cfg \<le> 2000 \<and>
      200 \<le> imageColumnWidth cfg \<and> imageColumnWidth cfg \<le> 600)"

text \<open>
  The caller: \<open>session?.userId\<close> and \<open>session.user?.authority\<close>, each possibly
  undefined.
\<close>

record session =
  userId :: "jsstring option"
  authority :: "int option"

text \<open>
  \<open>ctx.permissions\<close>, when the permission service is present, is its \<open>test\<close>
  function, which answers or throws.
\<close>

datatype test_outcome = Returns bool | Throws

type_synonym permission_service = "(jsstring \<Rightarrow> session \<Rightarrow> test_outcome) option"

section \<open>The store: a JavaScript Map from id to entry\<close>

text \<open>
  \<open>menuItems\<close> is a \<open>Map\<close>: it keeps its keys in insertion order, \<open>set\<close> on a key
  that is present replaces the value where it stands, and \<open>set\<close> on a new key appends.
\<close>

type_synonym store = "(jsstring \<times> menu_item) list"

fun map_get :: "store \<Rightarrow> jsstring \<Rightarrow> menu_item option" where
  "map_get [] k = None"
| "map_get ((k', v) # m) k = (if k' = k then Some v else map_get m k)"

fun map_set :: "store \<Rightarrow> jsstring \<Rightarrow> menu_item \<Rightarrow> store" where
  "map_set [] k v = [(k, v)]"
| "map_set ((k', v') # m) k v =
     (if k' = k then (k, v) # m else (k', v') # map_set m k v)"

fun map_delete :: "store \<Rightarrow> jsstring \<Rightarrow> store" where
  "map_delete [] k = []"
| "map_delete ((k', v') # m) k = (if k' = k then m else (k', v') # map_delete m k)"

definition map_values :: "store \<Rightarrow> menu_item list" where
  "map_values m = map snd m"

definition map_size :: "store \<Rightarrow> int" where
  "map_size m = int (length m)"

text \<open>\<open>config.defaultItems.forEach(item => menuItems.set(item.id, item))\<close>\<close>

definition initial_store :: "config \<Rightarrow> store" where
  "initial_store cfg = foldl (\<lambda>m item. map_set m (id' item) item) [] (defaultItems cfg)"

section \<open>Permission check\<close>

definition adminUsers :: "jsstring list" where
  "adminUsers = [asc ''123456789'', asc ''987654321'']"

text \<open>
  \<open>checkPermission\<close>: the authority field first, then the permission service when
  there is one and it does not throw, and the list of administrator ids last.
\<close>

definition checkPermission :: "permission_service \<Rightarrow> session \<Rightarrow> jsstring \<Rightarrow> bool promise" where
  "checkPermission perms session permission =
     (if (case authority session of None \<Rightarrow> False | Some a \<Rightarrow> a \<noteq> 0 \<and> 3 \<le> a)
      then Fulfilled True
      else
        (case (case perms of
                 None \<Rightarrow> None
               | Some test \<Rightarrow>
                   (case test permission session of Returns b \<Rightarrow> Some b | Throws \<Rightarrow> None)) of
           Some b \<Rightarrow> Fulfilled b
         | None \<Rightarrow>
             Fulfilled (case userId session of None \<Rightarrow> False | Some u \<Rightarrow> u \<in> set adminUsers)))"

section \<open>Mutating commands (src/index.ts)\<close>

text \<open>
  Each command answers with one of the plugin's messages, a constructor per message
  template carrying the values the template interpolates, and returns the store as it
  leaves it.
\<close>

datatype reply =
    AskNameAndCommand
  | PermissionDenied
  | NotFound "jsstring option"
  | Added jsstring jsstring
  | Toggled jsstring bool
  | Deleted jsstring
  | Updated jsstring
  | Moved jsstring jsstring jsstring

text \<open>
  The id of a new entry: the lower-cased name with every code unit outside
  \<open>a-z\<close>, \<open>0-9\<close> and U+4E00 to U+9FA5 replaced by a dash, runs of dashes collapsed, a dash at the
  start and a dash at the end removed, then a dash and the time in base 36.
\<close>

definition id_unit_ok :: "nat \<Rightarrow> bool" where
  "id_unit_ok c = ((97 \<le> c \<and> c \<le> 122) \<or> (48 \<le> c \<and> c \<le> 57) \<or> (0x4e00 \<le> c \<and> c \<le> 0x9fa5))"

fun collapse_dashes :: "jsstring \<Rightarrow> jsstring" where
  "collapse_dashes (a # b # s) =
     (if a = 45 \<and> b = 45 then collapse_dashes (b # s) else a # collapse_dashes (b # s))"
| "collapse_dashes s = s"

definition trim_dash :: "jsstring \<Rightarrow> jsstring" where
  "trim_dash s =
     (let t = (case s of [] \<Rightarrow> [] | c # r \<Rightarrow> if c = 45 then r else c # r)
      in if t \<noteq> [] \<and> last t = 45 then butlast t else t)"

definition generateId :: "(jsstring \<Rightarrow> jsstring) \<Rightarrow> int \<Rightarrow> jsstring \<Rightarrow> jsstring" where
  "generateId lc now nm =
     trim_dash (collapse_dashes (map (\<lambda>c. if id_unit_ok c then c else 45) (lc nm)))
       @ [45] @ toString_radix 36 now"

record add_options =
  add_description :: "jsstring option"
  add_category :: "jsstring option"
  add_order :: "int option"

definition no_description :: jsstring where
  "no_description = [0x6682, 0x65e0, 0x63cf, 0x8ff0]"

definition menu_add ::
  "(jsstring \<Rightarrow> jsstring) \<Rightarrow> int \<Rightarrow> permission_service \<Rightarrow> config \<Rightarrow> session option \<Rightarrow>
   add_options \<Rightarrow> jsstring option \<Rightarrow> jsstring option \<Rightarrow> store \<Rightarrow> reply \<times> store" where
  "menu_add lc now perms cfg sess options nm cmd menuItems =
     (if \<not> truthy_string nm \<or> \<not> truthy_string cmd then (AskNameAndCommand, menuItems)
      else if (case sess of
                 None \<Rightarrow> True
               | Some s \<Rightarrow> \<not> truthy_string (userId s) \<or>
                           \<not> await (checkPermission perms s (adminPermission cfg)))
      then (PermissionDenied, menuItems)
      else
        (let i = generateId lc now (the nm);
             newItem = \<lparr> id' = i, name = the nm,
                         description = or_string (add_description options) no_description,
                         command = the cmd,
                         category = or_string (add_category options) (defaultCategory cfg),
                         enabled = True,
                         order = or_number (add_order options) (map_size menuItems + 1),
                         permissions = None \<rparr>
         in (Added (the nm) i, map_set menuItems i newItem)))"

definition menu_toggle ::
  "permission_service \<Rightarrow> config \<Rightarrow> session option \<Rightarrow> jsstring option \<Rightarrow> store \<Rightarrow> reply \<times> store" where
  "menu_toggle perms cfg sess i menuItems =
     (if (case sess of
            None \<Rightarrow> True
          | Some s \<Rightarrow> \<not> truthy_string (userId s) \<or>
                      \<not> await (checkPermission perms s (adminPermission cfg)))
      then (PermissionDenied, menuItems)
      else
        (case Option.bind i (map_get menuItems) of
           None \<Rightarrow> (NotFound i, menuItems)
         | Some item \<Rightarrow>
             (let item1 = item\<lparr>enabled := \<not> enabled item\<rparr>
              in (Toggled (name item1) (enabled item1), map_set menuItems (the i) item1))))"

definition menu_delete ::
  "permission_service \<Rightarrow> config \<Rightarrow> session option \<Rightarrow> jsstring option \<Rightarrow> store \<Rightarrow> reply \<times> store" where
  "menu_delete perms cfg sess i menuItems =
     (if (case sess of
            None \<Rightarrow> True
          | Some s \<Rightarrow> \<not> truthy_string (userId s) \<or>
                      \<not> await (checkPermission perms s (adminPermission cfg)))
      then (PermissionDenied, menuItems)
      else
        (case Option.bind i (map_get menuItems) of
           None \<Rightarrow> (NotFound i, menuItems)
         | Some item \<Rightarrow> (Deleted (name item), map_delete menuItems (the i))))"

record edit_options =
  edit_name :: "jsstring option"
  edit_description :: "jsstring option"
  edit_command :: "jsstring option"
  edit_category :: "jsstring option"
  edit_order :: "int option"

text \<open>The five guarded assignments of \<open>menu.edit\<close>, in the order of the source.\<close>

definition update_fields :: "edit_options \<Rightarrow> menu_item \<Rightarrow> menu_item" where
  "update_fields options item =
     (let item1 = (if truthy_string (edit_name options)
                   then item\<lparr>name := the (edit_name options)\<rparr> else item);
          item2 = (if truthy_string (edit_description options)
                   then item1\<lparr>description := the (edit_description options)\<rparr> else item1);
          item3 = (if truthy_string (edit_command options)
                   then item2\<lparr>command := the (edit_command options)\<rparr> else item2);
          item4 = (if truthy_string (edit_category options)
                   then item3\<lparr>category := the (edit_category options)\<rparr> else item3)
      in if truthy_number (edit_order options)
         then item4\<lparr>order := the (edit_order options)\<rparr> else item4)"

definition menu_edit ::
  "permission_service \<Rightarrow> config \<Rightarrow> session option \<Rightarrow> edit_options \<Rightarrow> jsstring option \<Rightarrow>
   store \<Rightarrow> reply \<times> store" where
  "menu_edit perms cfg sess options i menuItems =
     (if (case sess of
            None \<Rightarrow> True
          | Some s \<Rightarrow> \<not> truthy_string (userId s) \<or>
                      \<not> await (checkPermission perms s (adminPermission cfg)))
      then (PermissionDenied, menuItems)
      else
        (case Option.bind i (map_get menuItems) of
           None \<Rightarrow> (NotFound i, menuItems)
         | Some item \<Rightarrow>
             (let item1 = update_fields options item
              in (Updated (name item1), map_set menuItems (the i) item1))))"

text \<open>
  \<open>menu.category.change\<close>; the new category is taken as given (the command declares
  it a required argument).
\<close>

definition menu_category_change ::
  "permission_service \<Rightarrow> config \<Rightarrow> session option \<Rightarrow> jsstring option \<Rightarrow> jsstring \<Rightarrow>
   store \<Rightarrow> reply \<times> store" where
  "menu_category_change perms cfg sess i newCategory menuItems =
     (if (case sess of
            None \<Rightarrow> True
          | Some s \<Rightarrow> \<not> truthy_string (userId s) \<or>
                      \<not> await (checkPermission perms s (adminPermission cfg)))
      then (PermissionDenied, menuItems)
      else
        (case Option.bind i (map_get menuItems) of
           None \<Rightarrow> (NotFound i, menuItems)
         | Some item \<Rightarrow>
             (let oldCategory = category item;
                  item1 = item\<lparr>category := newCategory\<rparr>
              in (Moved (name item1) oldCategory newCategory,
                  map_set menuItems (the i) item1))))"

section \<open>Browsing: the menu command (src/index.ts)\<close>

record menu_options =
  opt_category :: "jsstring option"
  opt_page :: "int option"
  opt_image :: bool
  opt_all :: bool

text \<open>
  The enabled entries in the store's order, narrowed to the categories that contain the
  requested text (both lower-cased) when a category is given.
\<close>

definition filter_items ::
  "(jsstring \<Rightarrow> jsstring) \<Rightarrow> jsstring option \<Rightarrow> store \<Rightarrow> menu_item list" where
  "filter_items lc cat menuItems =
     (let filteredItems = filter enabled (map_values menuItems)
      in if truthy_string cat
         then filter (\<lambda>item. includes_string (lc (category item)) (lc (the cat))) filteredItems
         else filteredItems)"

definition by_order :: "menu_item \<Rightarrow> menu_item \<Rightarrow> int" where
  "by_order a b = order a - order b"

text \<open>
  \<open>Math.ceil(a / b)\<close> on integers. (For \<open>b = 0\<close> JavaScript divides to an infinity
  or NaN; the schema keeps the page size and the column width positive.)
\<close>

definition ceil_div :: "int \<Rightarrow> int \<Rightarrow> int" where
  "ceil_div a b = \<lceil>(of_int a :: rat) / of_int b\<rceil>"

text \<open>
  The window of the request: all entries as page 1 of 1 in show-all mode, else the slice
  of the requested page, the page number and the page count.
\<close>

definition paginate :: "config \<Rightarrow> bool \<Rightarrow> int \<Rightarrow> menu_item list \<Rightarrow> menu_item list \<times> int \<times> int" where
  "paginate cfg all page filteredItems =
     (if all then (filteredItems, 1, 1)
      else
        (let startIndex = (page - 1) * itemsPerPage cfg;
             endIndex = startIndex + itemsPerPage cfg
         in (slice filteredItems startIndex endIndex, page,
             ceil_div (int (length filteredItems)) (itemsPerPage cfg))))"

subsection \<open>The image\<close>

text \<open>
  \<open>generateMenuImage\<close> fills a fixed HTML template and hands it to the renderer. The
  model keeps what the template interpolates: the gap and the flex basis of an item
  box, the subtitle, the blocks of entries (one per category, or one block without a
  label) and the four lines of the footer. A flex basis \<open>calc(p% - q px)\<close> is
  \<open>Calc p q\<close>.
\<close>

datatype css_length = Calc rat rat

record menu_html =
  gapSize :: int
  flexBasis :: css_length
  subtitle :: jsstring
  blocks :: "(jsstring option \<times> menu_item list) list"
  footer :: "jsstring list"

type_synonym buffer = "nat list"

text \<open>
  \<open>ctx.puppeteer\<close>, when the service is present: the viewport width and the page
  content to a screenshot, or a failure.
\<close>

type_synonym puppeteer_service = "(int \<Rightarrow> menu_html \<Rightarrow> buffer option) option"

definition page_info_span :: "int \<Rightarrow> jsstring" where
  "page_info_span n =
     asc ''<span class='' @ [34] @ asc ''page-info'' @ [34] @ asc ''>'' @ toString n @ asc ''</span>''"

definition page_info_div :: "int \<Rightarrow> int \<Rightarrow> jsstring" where
  "page_info_div pageNum totalPages =
     asc ''<div>'' @ [0x7b2c, 32] @ page_info_span pageNum @ asc '' / '' @
     page_info_span totalPages @ [32, 0x9875] @ asc ''</div>''"

definition full_menu_div :: jsstring where
  "full_menu_div =
     asc ''<div class='' @ [34] @ asc ''full-menu-indicator'' @ [34] @ asc ''>'' @
     [0xd83d, 0xdccb, 32, 0x5b8c, 0x6574, 0x83dc, 0x5355, 0xff08, 0x4e0d, 0x5206, 0x9875, 0xff09] @
     asc ''</div>''"

text \<open>The invocation that the image's hint names: \<open>menu -p N [-c category] -i\<close>.\<close>

definition next_page_command :: "int \<Rightarrow> jsstring option \<Rightarrow> jsstring" where
  "next_page_command pageNum cat =
     asc ''menu -p '' @ toString (pageNum + 1) @
     (if truthy_string cat then asc '' -c '' @ the cat else []) @ asc '' -i''"

definition next_page_div :: "int \<Rightarrow> jsstring option \<Rightarrow> jsstring" where
  "next_page_div pageNum cat =
     asc ''<div class='' @ [34] @ asc ''next-page-hint'' @ [34] @ asc ''>'' @
     [0xd83d, 0xdcc4, 32, 0x4e0b, 0x4e00, 0x9875] @ asc '': '' @
     next_page_command pageNum cat @ asc ''</div>''"

definition menu_page ::
  "config \<Rightarrow> menu_item list \<Rightarrow> int \<Rightarrow> int \<Rightarrow> jsstring option \<Rightarrow> bool \<Rightarrow> menu_html" where
  "menu_page cfg items pageNum totalPages cat all =
     (let columns = imageWidth cfg div imageColumnWidth cfg;
          nextPageHint =
            (if \<not> all \<and> 1 < totalPages \<and> pageNum < totalPages
             then next_page_div pageNum cat else [])
      in \<lparr> gapSize = 12,
           flexBasis = Calc (100 / of_int columns) (12 / of_int columns),
           subtitle = (if truthy_string cat then the cat else []),
           blocks =
             (if enableCategories cfg
              then map (\<lambda>c. (Some c, filter (\<lambda>item. category item = c) items))
                     (set_values (map category items))
              else [(None, items)]),
           footer =
             [if 1 < totalPages then page_info_div pageNum totalPages else [],
              if all then full_menu_div else [],
              nextPageHint,
              asc ''<div>'' @ imageFooterText cfg @ asc ''</div>''] \<rparr>)"

definition generateMenuImage ::
  "puppeteer_service \<Rightarrow> config \<Rightarrow> menu_item list \<Rightarrow> int \<Rightarrow> int \<Rightarrow> jsstring option \<Rightarrow> bool \<Rightarrow>
   buffer option" where
  "generateMenuImage puppeteer cfg items pageNum totalPages cat all =
     (case puppeteer of
        None \<Rightarrow> None
      | Some render \<Rightarrow> render (imageWidth cfg) (menu_page cfg items pageNum totalPages cat all))"

subsection \<open>The text\<close>

definition menu_title :: jsstring where
  "menu_title = [0xd83d, 0xdccb, 32, 0x529f, 0x80fd, 0x83dc, 0x5355, 10, 10]"

definition item_lines :: "jsstring \<Rightarrow> menu_item \<Rightarrow> jsstring" where
  "item_lines indent item =
     indent @ [0x2022, 32] @ name item @ asc '' - '' @ description item @ [10] @
     indent @ [32, 32, 0xd83d, 0xdca1, 32, 0x4f7f, 0x7528, 58, 32] @ command item @ [10, 10]"

definition text_items :: "config \<Rightarrow> menu_item list \<Rightarrow> jsstring" where
  "text_items cfg pageItems =
     (if enableCategories cfg
      then concat (map (\<lambda>c. [0xd83d, 0xdcc1, 32] @ c @ [10] @
                          concat (map (item_lines [32, 32])
                                    (filter (\<lambda>item. category item = c) pageItems)))
                    (set_values (map category pageItems)))
      else concat (map (item_lines []) pageItems))"

text \<open>
  The page line of the text answer: "page P/T, use menu -p P+1 for the next page".
\<close>

definition text_page_line :: "int \<Rightarrow> int \<Rightarrow> jsstring" where
  "text_page_line page totalPages =
     [10, 0x7b2c, 32] @ toString page @ asc ''/'' @ toString totalPages @
     [32, 0x9875, 0xff0c, 0x4f7f, 0x7528] @ asc '' menu -p '' @ toString (page + 1) @
     [32, 0x67e5, 0x770b, 0x4e0b, 0x4e00, 0x9875]"

definition image_tip :: jsstring where
  "image_tip =
     [10, 10, 0xd83d, 0xdca1, 32, 0x63d0, 0x793a, 58, 32, 0x4f7f, 0x7528] @ asc '' menu -i '' @
     [0x4ee5, 0x56fe, 0x7247, 0x5f62, 0x5f0f, 0x663e, 0x793a, 0x83dc, 0x5355]"

datatype menu_reply =
    NoItems "jsstring option"
  | ImageUnavailable
  | Image buffer
  | ImageFailed
  | Text jsstring

definition menu ::
  "(jsstring \<Rightarrow> jsstring) \<Rightarrow> puppeteer_service \<Rightarrow> config \<Rightarrow> menu_options \<Rightarrow> store \<Rightarrow> menu_reply" where
  "menu lc puppeteer cfg options menuItems =
     (let cat = opt_category options;
          page = (case opt_page options of None \<Rightarrow> 1 | Some p \<Rightarrow> p);
          image = opt_image options;
          all = opt_all options;
          filteredItems = array_sort by_order (filter_items lc cat menuItems);
          (pageItems, currentPage, totalPagesValue) = paginate cfg all page filteredItems
      in if pageItems = [] then NoItems cat
         else
           (let useImage = (image \<or> enableImageMenu cfg)
            in if useImage
               then (if puppeteer = None then ImageUnavailable
                     else (case generateMenuImage puppeteer cfg pageItems currentPage
                                  totalPagesValue cat all of
                             Some imageBuffer \<Rightarrow> Image imageBuffer
                           | None \<Rightarrow> ImageFailed))
               else
                 (let totalPagesForText =
                        ceil_div (int (length filteredItems)) (itemsPerPage cfg)
                  in Text (menu_title @ text_items cfg pageItems @
                           (if 1 < totalPagesForText
                            then text_page_line page totalPagesForText else []) @
                           (if \<not> useImage then image_tip else [])))))"

section \<open>Mutating commands of the earlier variants\<close>






section \<open>Notions the properties are stated with\<close>

text \<open>
  The caller passes the gate of a mutating command of src/index.ts: there is a session,
  it has a user id, and \<open>checkPermission\<close> answers true for the configured permission.
\<close>

definition authorized :: "permission_service \<Rightarrow> config \<Rightarrow> session option \<Rightarrow> bool" where
  "authorized perms cfg sess =
     (case sess of
        None \<Rightarrow> False
      | Some s \<Rightarrow> truthy_string (userId s) \<and> await (checkPermission perms s (adminPermission cfg)))"



text \<open>
  CSS: the length \<open>calc(p% - q px)\<close> in a row of width \<open>w\<close> pixels, and the width that
  \<open>c\<close> boxes of one length and the \<open>c - 1\<close> gaps between them take.
\<close>

fun css_px :: "css_length \<Rightarrow> rat \<Rightarrow> rat" where
  "css_px (Calc p q) w = w * p / 100 - q"

definition row_need :: "int \<Rightarrow> css_length \<Rightarrow> int \<Rightarrow> rat \<Rightarrow> rat" where
  "row_need c basis gap w = of_int c * css_px basis w + of_int (c - 1) * of_int gap"

section \<open>Concrete configurations and callers\<close>

text \<open>The defaults of the configuration schema, with its five default entries.\<close>

definition default_config :: config where
  "default_config =
     \<lparr> defaultCategory = [0x901a, 0x7528, 0x529f, 0x80fd],
       enableCategories = True,
       itemsPerPage = 10,
       allowUserSuggestions = True,
       adminPermission = asc ''menu.admin'',
       enableImageMenu = False,
       imageFooterText =
         [0x83dc, 0x5355, 0x7ba1, 0x7406, 0x63d2, 0x4ef6] @ asc '' | '' @ [0x4f7f, 0x7528] @
         asc '' menu -i '' @ [0x67e5, 0x770b, 0x56fe, 0x7247, 0x83dc, 0x5355],
       imageWidth = 1600,
       imageColumnWidth = 400,
       defaultItems =
         [\<lparr> id' = asc ''signin'', name = [0x7b7e, 0x5230],
             description = [0x6bcf, 0x65e5, 0x7b7e, 0x5230, 0x83b7, 0x53d6, 0x79ef, 0x5206],
             command = asc ''#'' @ [0x7b7e, 0x5230],
             category = [0x65e5, 0x5e38], enabled = True, order = 1, permissions = Some [] \<rparr>,
          \<lparr> id' = asc ''hitokoto'', name = [0x4e00, 0x8a00],
             description = [0x83b7, 0x53d6, 0x4e00, 0x6761, 0x968f, 0x673a, 0x540d, 0x8a00,
                            0x6216, 0x53e5, 0x5b50],
             command = asc ''#'' @ [0x4e00, 0x8a00],
             category = [0x5a31, 0x4e50], enabled = True, order = 2, permissions = Some [] \<rparr>,
          \<lparr> id' = asc ''music'', name = [0x70b9, 0x6b4c],
             description = [0x70b9, 0x64ad, 0x6307, 0x5b9a, 0x6b4c, 0x66f2],
             command = asc ''#'' @ [0x70b9, 0x6b4c] @ asc '' ['' @ [0x6b4c, 0x66f2] @ asc '']'',
             category = [0x5a31, 0x4e50], enabled = True, order = 3, permissions = Some [] \<rparr>,
          \<lparr> id' = asc ''domain'', name = [0x57df, 0x540d, 0x67e5, 0x8be2],
             description = [0x67e5, 0x8be2, 0x57df, 0x540d, 0x4fe1, 0x606f],
             command = asc ''#'' @ [0x57df, 0x540d] @ asc '' ['' @ [0x57df, 0x540d] @ asc '']'',
             category = [0x5de5, 0x5177], enabled = True, order = 4, permissions = Some [] \<rparr>,
          \<lparr> id' = asc ''server'', name = [0x670d, 0x52a1, 0x5668, 0x72b6, 0x6001],
             description = [0x67e5, 0x8be2, 0x670d, 0x52a1, 0x5668, 0x72b6, 0x6001, 0x4fe1, 0x606f],
             command = asc ''#'' @ [0x670d, 0x52a1, 0x5668] @ asc '' ('' @ [0x5730, 0x5740] @ asc '')'',
             category = [0x5de5, 0x5177], enabled = True, order = 5, permissions = Some [] \<rparr>] \<rparr>"

text \<open>
  A configuration with the smallest page size and six enabled entries of one category,
  so that its catalogue has two pages.
\<close>

definition tool :: "int \<Rightarrow> menu_item" where
  "tool n =
     \<lparr> id' = asc ''t'' @ toString n, name = asc ''tool '' @ toString n,
       description = asc ''a tool'', command = asc ''#t'' @ toString n,
       category = asc ''Tools'', enabled = True, order = n, permissions = Some [] \<rparr>"

definition tools_config :: config where
  "tools_config = default_config\<lparr> itemsPerPage := 5, defaultItems := map tool [1, 2, 3, 4, 5, 6] \<rparr>"

text \<open>
  Two callers: one whose id is on the administrator list, and one with an id that is
  not, of authority 1.
\<close>

definition admin :: session where
  "admin = \<lparr> userId = Some (asc ''123456789''), authority = None \<rparr>"

definition guest :: session where
  "guest = \<lparr> userId = Some (asc ''42''), authority = Some 1 \<rparr>"

definition no_add_options :: add_options where
  "no_add_options = \<lparr> add_description = None, add_category = None, add_order = None \<rparr>"


text \<open>The store as seeded from the default configuration, and the request options.\<close>

definition default_store :: store where
  "default_store = initial_store default_config"

definition tools_store :: store where
  "tools_store = initial_store tools_config"

definition browse :: "jsstring option \<Rightarrow> int option \<Rightarrow> bool \<Rightarrow> bool \<Rightarrow> menu_options" where
  "browse cat page img all =
     \<lparr> opt_category = cat, opt_page = page, opt_image = img, opt_all = all \<rparr>"

text \<open>
  The default store after the administrator has added an entry named \<open>help\<close> at
  time 0.
\<close>

definition help_store :: store where
  "help_store =
     snd (menu_add lc_ascii 0 None default_config (Some admin) no_add_options
            (Some (asc ''help'')) (Some (asc ''#help'')) default_store)"

section \<open>Facts about the JavaScript operations\<close>

text \<open>
  \<open>Math.ceil(a / b)\<close> in integer arithmetic, and its two bounds for a positive
  divisor: it is the least integer whose product with \<open>b\<close> reaches \<open>a\<close>.
\<close>

lemma ceil_div_int: "ceil_div a b = - (- a div b)"
  unfolding ceil_div_def
  by (metis ceiling_def floor_divide_of_int_eq minus_divide_left of_int_minus)

lemma ceil_div_bounds:
  assumes "0 < b"
  shows "a \<le> ceil_div a b * b" and "ceil_div a b * b < a + b"
proof -
  have eq: "- a = (- a div b) * b + (- a) mod b" by simp
  have m: "0 \<le> (- a) mod b" "(- a) mod b < b" using assms by simp_all
  show "a \<le> ceil_div a b * b" using eq m unfolding ceil_div_int
    by (smt (verit) minus_mult_left)
  show "ceil_div a b * b < a + b" using eq m unfolding ceil_div_int
    by (smt (verit) minus_mult_left)
qed

lemma ceil_div_least:
  assumes "0 < b" "a \<le> t * b"
  shows "ceil_div a b \<le> t"
proof (rule ccontr)
  assume "\<not> ceil_div a b \<le> t"
  then have "t + 1 \<le> ceil_div a b" by simp
  then have "(t + 1) * b \<le> ceil_div a b * b" using assms(1) by (simp add: mult_right_mono)
  then show False using ceil_div_bounds(2)[OF assms(1), of a] assms(2)
    by (simp add: algebra_simps)
qed



text \<open>
  The insertion step keeps the elements, keeps the list ordered, and puts the new
  element behind the elements of its own order.
\<close>

lemma sort_insert_mset: "mset (sort_insert cmp x ys) = add_mset x (mset ys)"
  by (induction ys) auto

lemma sort_insert_set: "set (sort_insert cmp x ys) = insert x (set ys)"
  by (induction ys) auto

lemma sort_insert_sorted:
  "sorted (map order ys) \<Longrightarrow> sorted (map order (sort_insert by_order x ys))"
  by (induction ys) (auto simp: by_order_def sort_insert_set)

lemma sort_insert_filter:
  "sorted (map order ys) \<Longrightarrow>
   filter (\<lambda>y. order y = k) (sort_insert by_order x ys) =
   filter (\<lambda>y. order y = k) ys @ (if order x = k then [x] else [])"
proof (induction ys)
  case Nil
  show ?case by simp
next
  case (Cons y ys)
  show ?case
  proof (cases "by_order x y < 0")
    case True
    then have lt: "order x < order y" by (simp add: by_order_def)
    have "\<forall>z \<in> set (y # ys). order x < order z" using Cons.prems lt by auto
    then have "order x = k \<Longrightarrow> filter (\<lambda>y. order y = k) (y # ys) = []"
      by (auto simp: filter_empty_conv)
    then show ?thesis using True by auto
  next
    case False
    then show ?thesis using Cons by auto
  qed
qed

lemma array_sort_snoc: "array_sort cmp (xs @ [x]) = sort_insert cmp x (array_sort cmp xs)"
  by (simp add: array_sort_def)

lemma array_sort_mset: "mset (array_sort cmp xs) = mset xs"
  by (induction xs rule: rev_induct) (simp_all add: array_sort_snoc sort_insert_mset, simp add: array_sort_def)

lemma array_sort_sorted: "sorted (map order (array_sort by_order xs))"
proof (induction xs rule: rev_induct)
  case Nil
  show ?case by (simp add: array_sort_def)
next
  case (snoc x xs)
  then show ?case by (simp add: array_sort_snoc sort_insert_sorted)
qed

lemma array_sort_stable:
  "filter (\<lambda>y. order y = k) (array_sort by_order xs) = filter (\<lambda>y. order y = k) xs"
proof (induction xs rule: rev_induct)
  case Nil
  show ?case by (simp add: array_sort_def)
next
  case (snoc x xs)
  then show ?case
    by (simp add: array_sort_snoc sort_insert_filter[OF array_sort_sorted])
qed

text \<open>
  The store: a lookup after \<open>set\<close>, and the size after \<open>set\<close>.
\<close>

lemma map_get_set_same: "map_get (map_set m k v) k = Some v"
  by (induction m) auto

lemma map_get_set_other: "k' \<noteq> k \<Longrightarrow> map_get (map_set m k v) k' = map_get m k'"
  by (induction m) auto

lemma length_map_set:
  "length (map_set m k v) = (if map_get m k = None then Suc (length m) else length m)"
  by (induction m) (auto split: if_splits)

section \<open>Facts about the commands and the concrete configurations\<close>

text \<open>
  The gate that every mutating command of src/index.ts opens with is the negation of
  \<open>authorized\<close>; what \<open>menu.add\<close> and \<open>menu.edit\<close> do behind it.
\<close>

lemma gate_authorized:
  "(case sess of None \<Rightarrow> True
    | Some s \<Rightarrow> \<not> truthy_string (userId s) \<or> \<not> await (checkPermission perms s (adminPermission cfg)))
   = (\<not> authorized perms cfg sess)"
  by (simp add: authorized_def split: option.splits)

lemma menu_add_authorized:
  assumes "authorized perms cfg sess" and "truthy_string nm" and "truthy_string cmd"
  shows "menu_add lc now perms cfg sess options nm cmd menuItems =
           (Added (the nm) (generateId lc now (the nm)),
            map_set menuItems (generateId lc now (the nm))
              \<lparr> id' = generateId lc now (the nm), name = the nm,
                description = or_string (add_description options) no_description,
                command = the cmd,
                category = or_string (add_category options) (defaultCategory cfg),
                enabled = True,
                order = or_number (add_order options) (map_size menuItems + 1),
                permissions = None \<rparr>)"
  using assms by (simp add: menu_add_def gate_authorized Let_def)


lemmas value_defs =
  asc_def truthy_string_def truthy_number_def or_string_def or_number_def digit_unit_def
  toString_radix_def toString_def lc_ascii_def await_def truthy_object_def

lemma admin_authorized: "authorized None default_config (Some admin)"
  by (simp add: authorized_def admin_def checkPermission_def adminUsers_def value_defs)

lemma guest_unauthorized: "\<not> authorized None default_config (Some guest)"
  by (simp add: authorized_def guest_def checkPermission_def adminUsers_def value_defs)

lemma default_config_ok: "config_ok default_config"
  by (simp add: config_ok_def default_config_def)

lemma tools_config_ok: "config_ok tools_config"
  by (simp add: config_ok_def tools_config_def default_config_def)

lemma default_store_eq: "default_store = map (\<lambda>item. (id' item, item)) (defaultItems default_config)"
  by (simp add: default_store_def initial_store_def default_config_def asc_def)

lemma default_store_signin:
  "map_get default_store (asc ''signin'') = Some (hd (defaultItems default_config))"
  by (simp add: default_store_eq default_config_def asc_def)

lemma default_store_no_help: "map_get default_store (asc ''help-0'') = None"
  by (simp add: default_store_eq default_config_def asc_def)

lemma default_store_size: "map_size default_store = 5"
  by (simp add: default_store_eq default_config_def map_size_def)

lemma tools_store_eq: "tools_store = map (\<lambda>item. (id' item, item)) (map tool [1, 2, 3, 4, 5, 6])"
  by (simp add: tools_store_def initial_store_def tools_config_def tool_def value_defs)

lemma help_id: "generateId lc_ascii 0 (asc ''help'') = asc ''help-0''"
  by (simp add: generateId_def trim_dash_def id_unit_ok_def value_defs)

lemma Help_id: "generateId lc_ascii 0 (asc ''Help'') = asc ''help-0''"
  by (simp add: generateId_def trim_dash_def id_unit_ok_def value_defs)

lemma help_store_eq:
  "help_store = default_store @
     [(asc ''help-0'',
       \<lparr> id' = asc ''help-0'', name = asc ''help'', description = no_description,
         command = asc ''#help'', category = defaultCategory default_config, enabled = True,
         order = 6, permissions = None \<rparr>)]"
proof -
  have n: "truthy_string (Some (asc ''help''))" and c: "truthy_string (Some (asc ''#help''))"
    by (simp_all add: value_defs)
  show ?thesis
    unfolding help_store_def menu_add_authorized[OF admin_authorized n c]
    by (simp add: help_id default_store_size)
      (simp add: default_store_eq default_config_def no_add_options_def value_defs)
qed

lemma tools_all: "filter_items lc_ascii None tools_store = [tool 1, tool 2, tool 3, tool 4, tool 5, tool 6]"
  by (simp add: filter_items_def tools_store_eq map_values_def truthy_string_def)
    (simp add: tool_def)

lemma tools_by_category:
  "filter_items lc_ascii (Some (asc ''tool'')) tools_store = [tool 1, tool 2, tool 3, tool 4, tool 5, tool 6]"
  by (simp add: filter_items_def tools_store_eq map_values_def truthy_string_def asc_def)
    (simp add: tool_def asc_def lc_ascii_def)

lemma tools_sorted: "array_sort by_order [tool 1, tool 2, tool 3, tool 4, tool 5, tool 6] = [tool 1, tool 2, tool 3, tool 4, tool 5, tool 6]"
  by (simp add: array_sort_def by_order_def tool_def)

lemma tools_pages: "ceil_div 6 (itemsPerPage tools_config) = 2"
  by (simp add: ceil_div_int tools_config_def)

section \<open>The claims\<close>

subsection \<open>C1: adding an entry\<close>

text \<open>
  C1 says that \<open>create\<close> fails with \<open>DuplicateId\<close> when the id is present and
  leaves the stored entry alone, and that it inserts the entry and grows the store by one
  when the id is absent. \<open>menu.add\<close> has no such failure: it calls \<open>Map.set\<close>.
  For an authorized caller who gives a name and a command the answer is the success
  message, the store then holds the new entry under the generated id, every other id
  keeps its entry, and the size grows by exactly one when the id was absent and stays
  when it was present.
\<close>

theorem add_upserts:
  assumes "authorized perms cfg sess" and "truthy_string nm" and "truthy_string cmd"
  shows "fst (menu_add lc now perms cfg sess options nm cmd menuItems) =
           Added (the nm) (generateId lc now (the nm)) \<and>
         map_get (snd (menu_add lc now perms cfg sess options nm cmd menuItems))
             (generateId lc now (the nm)) =
           Some \<lparr> id' = generateId lc now (the nm), name = the nm,
                  description = or_string (add_description options) no_description,
                  command = the cmd,
                  category = or_string (add_category options) (defaultCategory cfg),
                  enabled = True,
                  order = or_number (add_order options) (map_size menuItems + 1),
                  permissions = None \<rparr> \<and>
         (\<forall>k. k \<noteq> generateId lc now (the nm) \<longrightarrow>
              map_get (snd (menu_add lc now perms cfg sess options nm cmd menuItems)) k =
              map_get menuItems k) \<and>
         map_size (snd (menu_add lc now perms cfg sess options nm cmd menuItems)) =
           (if map_get menuItems (generateId lc now (the nm)) = None
            then map_size menuItems + 1 else map_size menuItems)"
  using assms
  by (simp add: menu_add_def gate_authorized Let_def map_get_set_same map_get_set_other
      map_size_def length_map_set)

text \<open>
  At the default store the administrator adds \<open>help\<close> at time 0: the id is
  \<open>help-0\<close> and the store grows from five entries to six.
\<close>

theorem add_upserts_witness:
  "authorized None default_config (Some admin) \<and>
   fst (menu_add lc_ascii 0 None default_config (Some admin) no_add_options
          (Some (asc ''help'')) (Some (asc ''#help'')) default_store) =
     Added (asc ''help'') (asc ''help-0'') \<and>
   map_size (snd (menu_add lc_ascii 0 None default_config (Some admin) no_add_options
          (Some (asc ''help'')) (Some (asc ''#help'')) default_store)) = 6"
proof -
  have n: "truthy_string (Some (asc ''help''))" and c: "truthy_string (Some (asc ''#help''))"
    by (simp_all add: value_defs)
  show ?thesis
    using add_upserts[OF admin_authorized n c, of lc_ascii 0 no_add_options default_store]
      admin_authorized help_id default_store_no_help default_store_size
    by simp
qed

text \<open>
  C1 fails where the id is present. The administrator adds \<open>Help\<close> with another
  command at the same time 0, after \<open>help\<close>: the generated id is \<open>help-0\<close>
  again, the answer is the success message, the command stored under that id changes
  from \<open>#help\<close> to \<open>#other\<close>, and the size stays.
\<close>

theorem add_duplicate_id_counterexample:
  "fst (menu_add lc_ascii 0 None default_config (Some admin) no_add_options
          (Some (asc ''Help'')) (Some (asc ''#other'')) help_store) =
     Added (asc ''Help'') (asc ''help-0'') \<and>
   map_option command (map_get help_store (asc ''help-0'')) = Some (asc ''#help'') \<and>
   map_option command
     (map_get (snd (menu_add lc_ascii 0 None default_config (Some admin) no_add_options
          (Some (asc ''Help'')) (Some (asc ''#other'')) help_store)) (asc ''help-0'')) =
     Some (asc ''#other'') \<and>
   map_size (snd (menu_add lc_ascii 0 None default_config (Some admin) no_add_options
          (Some (asc ''Help'')) (Some (asc ''#other'')) help_store)) = map_size help_store"
proof -
  have g: "map_get help_store (asc ''help-0'') \<noteq> None"
    by (simp add: help_store_eq default_store_eq default_config_def asc_def)
  have "map_option command (map_get help_store (asc ''help-0'')) = Some (asc ''#help'')"
    by (simp add: help_store_eq default_store_eq default_config_def asc_def)
  moreover have n: "truthy_string (Some (asc ''Help''))"
    and c: "truthy_string (Some (asc ''#other''))"
    by (simp_all add: value_defs)
  ultimately show ?thesis
    using g unfolding menu_add_authorized[OF admin_authorized n c]
    by (simp add: Help_id map_get_set_same map_size_def length_map_set)
qed

subsection \<open>C2: the flex basis of an item box\<close>

text \<open>
  C2 says that for \<open>c\<close> columns the box share is \<open>100/c\<close> percent less
  \<open>gap * (c - 1) / c\<close>, so that \<open>c\<close> boxes and \<open>c - 1\<close> gaps fill the row
  exactly. \<open>generateMenuImage\<close> subtracts \<open>12 / columns\<close>, the gap divided by the
  column count. With the default widths (1600 and 400, four columns) the flex basis is
  \<open>calc(25% - 3px)\<close>: four such boxes and three gaps of 12 pixels need 24 pixels more
  than the row has, where the basis of the claim, \<open>calc(25% - 9px)\<close>, fills it exactly.
\<close>

theorem default_flex_basis_overflows:
  "flexBasis (menu_page default_config items pageNum totalPages cat all) = Calc 25 3 \<and>
   gapSize (menu_page default_config items pageNum totalPages cat all) = 12 \<and>
   row_need 4 (Calc 25 3) 12 w = w + 24 \<and>
   row_need 4 (Calc 25 9) 12 w = w"
  by (simp add: menu_page_def Let_def default_config_def row_need_def)

subsection \<open>C3: the page count\<close>

text \<open>
  C3 says that the page count of the paginated query is
  \<open>ceil(filteredCount / pageSize)\<close> and at least 1, also for no entries. It is that
  ceiling, the least number of pages of the configured size that hold the entries, and
  so it is at least 1 exactly when there is an entry: for a positive page size (the
  configuration allows 5 to 50), the count times the size reaches the number of entries,
  exceeds it by less than one page, and the count is positive if and only if the list
  is not empty.
\<close>

theorem total_pages_is_ceiling:
  assumes "0 < itemsPerPage cfg"
  shows "int (length xs) \<le> snd (snd (paginate cfg False page xs)) * itemsPerPage cfg \<and>
         snd (snd (paginate cfg False page xs)) * itemsPerPage cfg <
           int (length xs) + itemsPerPage cfg \<and>
         (1 \<le> snd (snd (paginate cfg False page xs))) = (xs \<noteq> [])"
proof -
  let ?S = "itemsPerPage cfg" and ?N = "int (length xs)"
  have S: "0 < ?S" using assms .
  have T: "snd (snd (paginate cfg False page xs)) = ceil_div ?N ?S"
    by (simp add: paginate_def Let_def)
  have b1: "?N \<le> ceil_div ?N ?S * ?S" and b2: "ceil_div ?N ?S * ?S < ?N + ?S"
    using ceil_div_bounds[OF S] by blast+
  have "(1 \<le> ceil_div ?N ?S) = (xs \<noteq> [])"
  proof (cases xs)
    case Nil
    then show ?thesis by (simp add: ceil_div_int)
  next
    case (Cons a list)
    then have "0 < ?N" by simp
    then have "0 < ceil_div ?N ?S * ?S" using b1 by linarith
    then have "0 < ceil_div ?N ?S" using S by (simp add: zero_less_mult_iff)
    then show ?thesis using Cons by simp
  qed
  then show ?thesis using T b1 b2 by simp
qed

text \<open>
  Six entries at five per page are two pages.
\<close>

theorem total_pages_is_ceiling_witness:
  "config_ok tools_config \<and> 0 < itemsPerPage tools_config \<and>
   snd (snd (paginate tools_config False 1 (map tool [1, 2, 3, 4, 5, 6]))) = 2"
proof -
  have s: "itemsPerPage tools_config = 5" by (simp add: tools_config_def)
  have p: "0 < itemsPerPage tools_config" by (simp add: s)
  show ?thesis
    using total_pages_is_ceiling[OF p, of "map tool [1, 2, 3, 4, 5, 6]" 1] tools_config_ok
    by (simp add: s)
qed

text \<open>
  C3 fails for no entries: the count is 0, not 1, and the command answers that it found
  no entries.
\<close>

theorem total_pages_zero_counterexample:
  "config_ok default_config \<and>
   \<not> 1 \<le> snd (snd (paginate default_config False 1 [])) \<and>
   snd (snd (paginate default_config False 1 [])) = 0 \<and>
   menu lc_ascii None default_config (browse None None False False) [] = NoItems None"
  using default_config_ok
  by (simp add: paginate_def Let_def ceil_div_int menu_def browse_def filter_items_def
      map_values_def array_sort_def slice_def truthy_string_def)

subsection \<open>C4: show-all mode\<close>

text \<open>
  C4 says that a request in show-all mode gets every filtered and sorted entry and is
  told of exactly one page, as text and as image. The text answer computes its page
  count again from the page size without looking at the mode: with six entries at five
  per page, \<open>menu -a\<close> lists all six and then says "page 1/2" and names
  \<open>menu -p 2\<close> as the next page, although the window of the request is page 1 of 1
  and the footer of the image shows the full-menu line and no page line.
\<close>

theorem show_all_text_reports_two_pages:
  "menu lc_ascii None tools_config (browse None None False True) tools_store =
     Text (menu_title @ text_items tools_config [tool 1, tool 2, tool 3, tool 4, tool 5, tool 6] @
           text_page_line 1 2 @ image_tip) \<and>
   paginate tools_config True 1 [tool 1, tool 2, tool 3, tool 4, tool 5, tool 6] =
     ([tool 1, tool 2, tool 3, tool 4, tool 5, tool 6], 1, 1) \<and>
   footer (menu_page tools_config [tool 1, tool 2, tool 3, tool 4, tool 5, tool 6] 1 1 None True) =
     [[], full_menu_div, [], asc ''<div>'' @ imageFooterText tools_config @ asc ''</div>'']"
proof -
  have "paginate tools_config True 1 [tool 1, tool 2, tool 3, tool 4, tool 5, tool 6] =
          ([tool 1, tool 2, tool 3, tool 4, tool 5, tool 6], 1, 1)"
    by (simp add: paginate_def)
  moreover have "\<not> enableImageMenu tools_config"
    by (simp add: tools_config_def default_config_def)
  ultimately show ?thesis
    by (simp add: menu_def browse_def tools_all tools_sorted tools_pages Let_def)
      (simp add: menu_page_def Let_def)
qed

subsection \<open>C5: the next-page hint\<close>

text \<open>
  C5 says that, outside show-all mode and with a further page, the footer names the
  invocation of the next page, with the category filter when one is active. The image's
  hint does (\<open>menu -p 2 -c tool -i\<close>); the page line of the text answer is built
  from the page numbers alone: \<open>menu -c tool\<close> over six matching entries at five per
  page answers with \<open>menu -p 2\<close>, without the category.
\<close>

theorem text_hint_omits_category:
  "menu lc_ascii None tools_config (browse (Some (asc ''tool'')) None False False) tools_store =
     Text (menu_title @ text_items tools_config [tool 1, tool 2, tool 3, tool 4, tool 5] @
           text_page_line 1 2 @ image_tip) \<and>
   text_page_line 1 2 =
     [10, 0x7b2c, 32] @ asc ''1/2'' @ [32, 0x9875, 0xff0c, 0x4f7f, 0x7528] @
     asc '' menu -p 2'' @ [32, 0x67e5, 0x770b, 0x4e0b, 0x4e00, 0x9875] \<and>
   next_page_command 1 (Some (asc ''tool'')) = asc ''menu -p 2 -c tool -i''"
proof -
  have "paginate tools_config False 1 [tool 1, tool 2, tool 3, tool 4, tool 5, tool 6] =
          ([tool 1, tool 2, tool 3, tool 4, tool 5], 1, 2)"
    by (simp add: paginate_def Let_def slice_def ceil_div_int) (simp add: tools_config_def)
  moreover have "\<not> enableImageMenu tools_config"
    by (simp add: tools_config_def default_config_def)
  ultimately have "menu lc_ascii None tools_config (browse (Some (asc ''tool'')) None False False)
       tools_store =
     Text (menu_title @ text_items tools_config [tool 1, tool 2, tool 3, tool 4, tool 5] @
           text_page_line 1 2 @ image_tip)"
    by (simp add: menu_def browse_def tools_by_category tools_sorted tools_pages Let_def)
  then show ?thesis
    by (simp add: text_page_line_def next_page_command_def value_defs)
qed

subsection \<open>C6: the sort\<close>

text \<open>
  C6 says that the query sort orders the entries ascending by \<open>order\<close> and is
  stable, and that \<open>[a:2, b:1, c:2]\<close> becomes \<open>[b, a, c]\<close>. The result of
  \<open>sort((a, b) => a.order - b.order)\<close> is ordered by \<open>order\<close>, has the same
  entries, and keeps the entries of each order in their input sequence.
\<close>

theorem sort_by_order_stable:
  "sorted (map order (array_sort by_order xs)) \<and>
   mset (array_sort by_order xs) = mset xs \<and>
   (\<forall>k. filter (\<lambda>y. order y = k) (array_sort by_order xs) = filter (\<lambda>y. order y = k) xs) \<and>
   array_sort by_order
     [x\<lparr>id' := asc ''a'', order := 2\<rparr>, x\<lparr>id' := asc ''b'', order := 1\<rparr>,
      x\<lparr>id' := asc ''c'', order := 2\<rparr>] =
     [x\<lparr>id' := asc ''b'', order := 1\<rparr>, x\<lparr>id' := asc ''a'', order := 2\<rparr>,
      x\<lparr>id' := asc ''c'', order := 2\<rparr>]"
  by (simp add: array_sort_sorted array_sort_mset array_sort_stable)
    (simp add: array_sort_def by_order_def)

subsection \<open>C7: editing an entry\<close>




subsection \<open>C8: mutating commands of an unauthorized caller\<close>

text \<open>
  C8 says that each of add, edit, delete, toggle and recategorize, called by someone
  who is not authorized, answers permission denied and leaves the store as it is. In
  src/index.ts the store is left as it is by all five, and the answer is permission
  denied for four of them and for \<open>menu.add\<close> with a name and a command;
  \<open>menu.add\<close> checks its arguments first and asks for them when one is missing.
\<close>

theorem unauthorized_leaves_store:
  assumes "\<not> authorized perms cfg sess"
  shows "menu_toggle perms cfg sess i m = (PermissionDenied, m) \<and>
         menu_delete perms cfg sess i m = (PermissionDenied, m) \<and>
         menu_edit perms cfg sess eo i m = (PermissionDenied, m) \<and>
         menu_category_change perms cfg sess i c m = (PermissionDenied, m) \<and>
         menu_add lc now perms cfg sess ao nm cmd m =
           (if truthy_string nm \<and> truthy_string cmd then PermissionDenied
            else AskNameAndCommand, m)"
  using assms
  by (simp add: menu_toggle_def menu_delete_def menu_edit_def menu_category_change_def
      menu_add_def gate_authorized)

text \<open>
  A caller of authority 1 who is not on the administrator list deletes \<open>signin\<close>:
  permission denied, and the entry is still there.
\<close>

theorem unauthorized_leaves_store_witness:
  "\<not> authorized None default_config (Some guest) \<and>
   menu_delete None default_config (Some guest) (Some (asc ''signin'')) default_store =
     (PermissionDenied, default_store) \<and>
   map_get (snd (menu_delete None default_config (Some guest) (Some (asc ''signin''))
                   default_store)) (asc ''signin'') =
     Some (hd (defaultItems default_config))"
  using unauthorized_leaves_store[OF guest_unauthorized, of "Some (asc ''signin'')" default_store]
    guest_unauthorized default_store_signin
  by simp

text \<open>
  C8 fails for \<open>menu.add\<close> without arguments: the same caller is asked for a name
  and a command, which is not the permission-denied answer.
\<close>

theorem unauthorized_add_counterexample:
  "\<not> authorized None default_config (Some guest) \<and>
   fst (menu_add lc_ascii 0 None default_config (Some guest) no_add_options None None
          default_store) = AskNameAndCommand \<and>
   AskNameAndCommand \<noteq> PermissionDenied"
  using guest_unauthorized by (simp add: menu_add_def truthy_string_def)

subsection \<open>C9: the pages together\<close>



subsection \<open>C10: the permission check of the earlier variants\<close>



end
